theory Spec2Isabelle
  imports Main
begin

section \<open>Combo box selection state and popup placement\<close>

text \<open>
  A shallow embedding of \<^verbatim>\<open>ComboBoxBase\<close> from
  \<^verbatim>\<open>qfluentwidgets/components/widgets/combo_box.py\<close>. Methods that mutate
  \<^verbatim>\<open>self\<close> take the object state and return the new one. Python's unbounded
  integers are \<open>int\<close>. The displayed text of the widget (the text property of the
  toolkit base class, written by \<^verbatim>\<open>super().setText\<close>) is a field of the state,
  and every \<^verbatim>\<open>emit\<close> of a signal is appended to a log kept in the state.
\<close>

subsection \<open>Items\<close>

text \<open>
  The icon argument of an item is \<^verbatim>\<open>None\<close>, a path string, or a toolkit icon
  object (an opaque handle). The setter of \<^verbatim>\<open>ComboItem.icon\<close> stores an empty
  \<^verbatim>\<open>QIcon()\<close> for a falsy argument (\<^verbatim>\<open>None\<close> or the empty string),
  \<^verbatim>\<open>QIcon(ico)\<close> for a string, and the object itself otherwise.
\<close>

datatype IconArg = IconNone | IconStr string | IconObj nat

datatype StoredIcon = QIcon_empty | QIcon_path string | QIcon_obj nat

fun icon_setter :: "IconArg \<Rightarrow> StoredIcon" where
  "icon_setter IconNone = QIcon_empty"
| "icon_setter (IconStr p) = (if p = [] then QIcon_empty else QIcon_path p)"
| "icon_setter (IconObj h) = QIcon_obj h"

text \<open>\<open>item_text\<close> is the attribute \<^verbatim>\<open>text\<close> of an item.\<close>

record 'u ComboItem =
  item_text :: string
  userData :: "'u option"
  icon :: StoredIcon

definition ComboItem_init :: "string \<Rightarrow> IconArg \<Rightarrow> 'u option \<Rightarrow> 'u ComboItem" where
  "ComboItem_init t ico ud = \<lparr>item_text = t, userData = ud, icon = icon_setter ico\<rparr>"

subsection \<open>The object state\<close>

datatype Signal = currentIndexChanged int | currentTextChanged string

text \<open>
  \<open>v_currentIndex\<close> is the attribute \<^verbatim>\<open>_currentIndex\<close>, \<open>widgetText\<close> the text
  shown by the widget, \<open>emitted\<close> the signals emitted so far, oldest first.
\<close>

record 'u ComboBoxBase =
  items :: "'u ComboItem list"
  v_currentIndex :: int
  v_maxVisibleItems :: int
  widgetText :: string
  emitted :: "Signal list"

definition init :: "string \<Rightarrow> 'u ComboBoxBase" where
  "init t0 = \<lparr>items = [], v_currentIndex = -1, v_maxVisibleItems = -1,
              widgetText = t0, emitted = []\<rparr>"

definition emit :: "'u ComboBoxBase \<Rightarrow> Signal \<Rightarrow> 'u ComboBoxBase" where
  "emit s sig = s\<lparr>emitted := emitted s @ [sig]\<rparr>"

definition currentIndex :: "'u ComboBoxBase \<Rightarrow> int" where
  "currentIndex s = v_currentIndex s"

definition count :: "'u ComboBoxBase \<Rightarrow> int" where
  "count s = int (length (items s))"

definition setText :: "'u ComboBoxBase \<Rightarrow> string \<Rightarrow> 'u ComboBoxBase" where
  "setText s t = s\<lparr>widgetText := t\<rparr>"

definition setCurrentIndex :: "'u ComboBoxBase \<Rightarrow> int \<Rightarrow> 'u ComboBoxBase" where
  "setCurrentIndex s index =
     (if \<not> (0 \<le> index \<and> index < int (length (items s))) then s
      else setText (s\<lparr>v_currentIndex := index\<rparr>) (item_text (items s ! nat index)))"

definition currentText :: "'u ComboBoxBase \<Rightarrow> string" where
  "currentText s =
     (if \<not> (0 \<le> currentIndex s \<and> currentIndex s < int (length (items s))) then []
      else item_text (items s ! nat (currentIndex s)))"

definition onItemClicked :: "'u ComboBoxBase \<Rightarrow> int \<Rightarrow> 'u ComboBoxBase" where
  "onItemClicked s index =
     (if index = currentIndex s then s
      else
        let s1 = setCurrentIndex s index;
            s2 = emit s1 (currentTextChanged (currentText s1))
        in emit s2 (currentIndexChanged index))"

subsection \<open>Python list operations\<close>

text \<open>
  \<^verbatim>\<open>list.insert(index, x)\<close> never raises: a negative index counts from the end and
  is clamped to 0, an index beyond the end is clamped to the length.
\<close>

definition list_insert :: "'a list \<Rightarrow> int \<Rightarrow> 'a \<Rightarrow> 'a list" where
  "list_insert xs index x =
     (let n = int (length xs);
          w = (if index < 0 then (if index + n < 0 then 0 else index + n) else index);
          w' = (if w > n then n else w)
      in take (nat w') xs @ x # drop (nat w') xs)"


text \<open>
  \<^verbatim>\<open>list.pop(index)\<close> raises \<^verbatim>\<open>IndexError\<close> out of range; a negative index
  counts from the end.
\<close>

definition list_pop :: "'a list \<Rightarrow> int \<Rightarrow> 'a list option" where
  "list_pop xs index =
     (let n = int (length xs);
          j = (if index < 0 then index + n else index)
      in if 0 \<le> j \<and> j < n then Some (take (nat j) xs @ drop (Suc (nat j)) xs) else None)"

subsection \<open>Mutating the item list\<close>

definition addItem :: "'u ComboBoxBase \<Rightarrow> string \<Rightarrow> IconArg \<Rightarrow> 'u option \<Rightarrow> 'u ComboBoxBase" where
  "addItem s t ico ud =
     (let item = ComboItem_init t ico ud;
          s1 = s\<lparr>items := items s @ [item]\<rparr>
      in if length (items s1) = 1 then setCurrentIndex s1 0 else s1)"

text \<open>
  \<^verbatim>\<open>removeItem\<close> pops only behind its range check, so the pop cannot raise; the
  \<open>None\<close> branch is unreachable and returns the state as it is.
\<close>

definition removeItem :: "'u ComboBoxBase \<Rightarrow> int \<Rightarrow> 'u ComboBoxBase" where
  "removeItem s index =
     (if \<not> (0 \<le> index \<and> index < int (length (items s))) then s
      else
        case list_pop (items s) index of
          None \<Rightarrow> s
        | Some xs \<Rightarrow>
            let s1 = s\<lparr>items := xs\<rparr> in
            if index < currentIndex s1 then onItemClicked s1 (v_currentIndex s1 - 1)
            else if index = currentIndex s1 then
              (if index > 0 then onItemClicked s1 (v_currentIndex s1 - 1)
               else
                 let s2 = setCurrentIndex s1 0;
                     s3 = emit s2 (currentTextChanged (currentText s2))
                 in emit s3 (currentIndexChanged 0))
            else s1)"

definition insertItem ::
  "'u ComboBoxBase \<Rightarrow> int \<Rightarrow> string \<Rightarrow> IconArg \<Rightarrow> 'u option \<Rightarrow> 'u ComboBoxBase" where
  "insertItem s index t ico ud =
     (let item = ComboItem_init t ico ud;
          s1 = s\<lparr>items := list_insert (items s) index item\<rparr>
      in if index \<le> currentIndex s1 then onItemClicked s1 (currentIndex s1 + 1) else s1)"

subsection \<open>Sequences of mutations\<close>

datatype 'u Mutation =
    AddItem string IconArg "'u option"
  | InsertItem int string IconArg "'u option"
  | RemoveItem int

fun mutate :: "'u ComboBoxBase \<Rightarrow> 'u Mutation \<Rightarrow> 'u ComboBoxBase" where
  "mutate s (AddItem t ico ud) = addItem s t ico ud"
| "mutate s (InsertItem index t ico ud) = insertItem s index t ico ud"
| "mutate s (RemoveItem index) = removeItem s index"

text \<open>The states after each call of a sequence, in order.\<close>

fun states_after :: "'u ComboBoxBase \<Rightarrow> 'u Mutation list \<Rightarrow> 'u ComboBoxBase list" where
  "states_after s [] = []"
| "states_after s (m # ms) = mutate s m # states_after (mutate s m) ms"

text \<open>The invariant of the selection state as the data model gives it.\<close>

definition index_valid :: "'u ComboBoxBase \<Rightarrow> bool" where
  "index_valid s = (currentIndex s = -1 \<or> (0 \<le> currentIndex s \<and> currentIndex s < count s))"

subsection \<open>Showing the popup\<close>

text \<open>
  Modelled from the spec: the enumeration \<^verbatim>\<open>MenuAnimationType\<close> is declared in
  \<^verbatim>\<open>menu.py\<close>, which is not among the sources; of its members only the two
  candidate directions that \<^verbatim>\<open>_showComboMenu\<close> names are needed.
\<close>

datatype MenuAnimationType = DROP_DOWN | PULL_UP

record QPoint =
  px :: int
  py :: int

text \<open>
  What \<^verbatim>\<open>_showComboMenu\<close> reads from the toolkit: the widget's width and height,
  the menu's width and the left content margin of its layout (as they are once the
  menu has been filled and widened), the map from widget coordinates to screen
  coordinates, and the sizing function \<^verbatim>\<open>menu.view.heightForAnimation\<close>.
\<close>

record Toolkit =
  selfWidth :: int
  selfHeight :: int
  menuWidth :: int
  marginLeft :: int
  mapToGlobal :: "QPoint \<Rightarrow> QPoint"
  heightForAnimation :: "QPoint \<Rightarrow> MenuAnimationType \<Rightarrow> int"

datatype ViewCall =
    HeightForAnimation QPoint MenuAnimationType int
  | ViewAdjustSize QPoint MenuAnimationType
  | MenuAdjustSize
  | RoundMenuExec QPoint bool MenuAnimationType

text \<open>A call of the sizing function returns its answer and is logged with it.\<close>

definition query ::
  "Toolkit \<Rightarrow> ViewCall list \<Rightarrow> QPoint \<Rightarrow> MenuAnimationType \<Rightarrow> int \<times> ViewCall list" where
  "query tk log p t =
     (let h = heightForAnimation tk p t in (h, log @ [HeightForAnimation p t h]))"

text \<open>\<^verbatim>\<open>ComboBoxMenu.exec(pos, ani=True, aniType)\<close>.\<close>

definition ComboBoxMenu_exec ::
  "ViewCall list \<Rightarrow> QPoint \<Rightarrow> MenuAnimationType \<Rightarrow> ViewCall list" where
  "ComboBoxMenu_exec log pos aniType =
     log @ [ViewAdjustSize pos aniType, MenuAdjustSize, RoundMenuExec pos True aniType]"

record ComboBoxMenu =
  menuActions :: "(StoredIcon \<times> string \<times> int) list"
  defaultAction :: "nat option"
  maxVisible :: int
  calls :: "ViewCall list"

datatype ShowResult = NotShown | RaisedIndexError | Shown ComboBoxMenu

text \<open>
  \<^verbatim>\<open>_showComboMenu\<close>. An action holds the icon and text of its item and the index
  it passes to \<^verbatim>\<open>_onItemClicked\<close> when triggered. Reading
  \<^verbatim>\<open>menu.menuActions()[self.currentIndex()]\<close> beyond the list raises.
\<close>

definition showComboMenu :: "Toolkit \<Rightarrow> 'u ComboBoxBase \<Rightarrow> ShowResult" where
  "showComboMenu tk s =
     (if items s = [] then NotShown
      else
        let acts = map (\<lambda>(i, item). (icon item, item_text item, int i)) (enumerate 0 (items s));
            selecting = (currentIndex s \<ge> 0 \<and> items s \<noteq> [])
        in
        if selecting \<and> \<not> currentIndex s < int (length acts) then RaisedIndexError
        else
          let dflt = (if selecting then Some (nat (currentIndex s)) else None);
              x = (- menuWidth tk) div 2 + marginLeft tk + selfWidth tk div 2;
              pd = mapToGlobal tk \<lparr>px = x, py = selfHeight tk\<rparr>;
              (hd, log1) = query tk [] pd DROP_DOWN;
              pu = mapToGlobal tk \<lparr>px = x, py = 0\<rparr>;
              (hu, log2) = query tk log1 pd PULL_UP;
              log3 = (if hd \<ge> hu
                      then ComboBoxMenu_exec (log2 @ [ViewAdjustSize pd DROP_DOWN]) pd DROP_DOWN
                      else ComboBoxMenu_exec (log2 @ [ViewAdjustSize pu PULL_UP]) pu PULL_UP)
          in Shown \<lparr>menuActions = acts, defaultAction = dflt,
                    maxVisible = v_maxVisibleItems s, calls = log3\<rparr>)"

text \<open>
  Read from the log of calls: the sizing queries (point and direction), the heights
  they reported (direction and height), and where and how the popup was opened.
\<close>

fun queries :: "ViewCall list \<Rightarrow> (QPoint \<times> MenuAnimationType) list" where
  "queries [] = []"
| "queries (HeightForAnimation p t h # cs) = (p, t) # queries cs"
| "queries (c # cs) = queries cs"

fun reported :: "ViewCall list \<Rightarrow> (MenuAnimationType \<times> int) list" where
  "reported [] = []"
| "reported (HeightForAnimation p t h # cs) = (t, h) # reported cs"
| "reported (c # cs) = reported cs"

definition calls_of :: "ShowResult \<Rightarrow> ViewCall list" where
  "calls_of r = (case r of Shown m \<Rightarrow> calls m | _ \<Rightarrow> [])"

fun opened :: "ViewCall list \<Rightarrow> (QPoint \<times> MenuAnimationType) list" where
  "opened [] = []"
| "opened (RoundMenuExec p a t # cs) = (p, t) # opened cs"
| "opened (c # cs) = opened cs"

subsection \<open>Example objects\<close>

definition item :: "string \<Rightarrow> nat ComboItem" where
  "item t = ComboItem_init t IconNone None"

definition box :: "string list \<Rightarrow> int \<Rightarrow> nat ComboBoxBase" where
  "box ts i = \<lparr>items = map item ts, v_currentIndex = i, v_maxVisibleItems = -1,
               widgetText = (if 0 \<le> i \<and> i < int (length ts) then ts ! nat i else []),
               emitted = []\<rparr>"

text \<open>
  A widget 100 wide and 30 high whose top left corner is at (200, 300) on the screen,
  with a menu 120 wide and a left margin of 12; the screen leaves \<open>h_below\<close> for a popup
  opened at the widget's bottom edge and \<open>h_above\<close> for one opened at its top edge.
\<close>

definition screen :: "int \<Rightarrow> int \<Rightarrow> Toolkit" where
  "screen h_below h_above =
     \<lparr>selfWidth = 100, selfHeight = 30, menuWidth = 120, marginLeft = 12,
      mapToGlobal = (\<lambda>p. \<lparr>px = px p + 200, py = py p + 300\<rparr>),
      heightForAnimation = (\<lambda>p t. if py p = 330 then h_below else h_above)\<rparr>"

section \<open>Properties\<close>

subsection \<open>Auxiliary facts\<close>

lemmas combo_defs = setCurrentIndex_def setText_def emit_def currentIndex_def count_def
  currentText_def onItemClicked_def

lemma length_list_insert: "length (list_insert xs i x) = Suc (length xs)"
  by (simp add: list_insert_def Let_def)

lemma list_insert_in_range:
  "0 \<le> i \<Longrightarrow> i \<le> int (length xs) \<Longrightarrow>
   list_insert xs i x = take (nat i) xs @ x # drop (nat i) xs"
  by (simp add: list_insert_def Let_def)

text \<open>Behind the range check of \<^verbatim>\<open>removeItem\<close> the pop never raises.\<close>

lemma list_pop_in_range:
  "0 \<le> i \<Longrightarrow> i < int (length xs) \<Longrightarrow>
   list_pop xs i = Some (take (nat i) xs @ drop (Suc (nat i)) xs)"
  by (simp add: list_pop_def Let_def)

text \<open>
  \<^verbatim>\<open>addItem\<close> and \<^verbatim>\<open>insertItem\<close> keep the invariant; \<^verbatim>\<open>removeItem\<close> keeps
  it unless it removes the only entry while that entry is selected.
\<close>

lemma addItem_index_valid: "index_valid s \<Longrightarrow> index_valid (addItem s t ico ud)"
  by (auto simp: index_valid_def addItem_def combo_defs Let_def)

lemma insertItem_index_valid: "index_valid s \<Longrightarrow> index_valid (insertItem s i t ico ud)"
  by (auto simp: index_valid_def insertItem_def combo_defs Let_def length_list_insert)

lemma removeItem_index_valid:
  assumes "index_valid s"
    and "\<not> (index = 0 \<and> currentIndex s = 0 \<and> length (items s) = 1)"
  shows "index_valid (removeItem s index)"
proof (cases "0 \<le> index \<and> index < int (length (items s))")
  case False
  then show ?thesis using assms(1) by (simp add: removeItem_def)
next
  case True
  then have pop: "list_pop (items s) index =
      Some (take (nat index) (items s) @ drop (Suc (nat index)) (items s))"
    by (simp add: list_pop_in_range)
  from True assms show ?thesis
    by (auto simp: index_valid_def removeItem_def pop combo_defs Let_def)
qed

text \<open>
  Removing the selected entry: the index moves one down when it was positive, and
  stays 0 when the first entry was selected and another entry remains.
\<close>

lemma removeItem_current_index:
  assumes "0 \<le> currentIndex s" and "currentIndex s < count s"
  shows "(currentIndex s > 0 \<longrightarrow>
            currentIndex (removeItem s (currentIndex s)) = currentIndex s - 1) \<and>
         (currentIndex s = 0 \<and> count s > 1 \<longrightarrow>
            currentIndex (removeItem s (currentIndex s)) = 0)"
  using assms
  by (auto simp: removeItem_def list_pop_in_range combo_defs Let_def)

subsection \<open>The invariant of the current index\<close>

text \<open>
  C1. The claim: for every sequence of \<^verbatim>\<open>addItem\<close>, \<^verbatim>\<open>insertItem\<close> and
  \<^verbatim>\<open>removeItem\<close> calls on a selection state that starts empty, after each call the
  current index is -1 or a valid index into the list; in particular it is -1 whenever
  the list is empty. The code breaks this: after \<^verbatim>\<open>addItem("A")\<close> the invariant
  holds, and after \<^verbatim>\<open>removeItem(0)\<close> the list is empty while the current index is
  still 0, because \<^verbatim>\<open>setCurrentIndex(0)\<close> returns early on the empty list.
\<close>

theorem removeItem_sole_entry_breaks_index_valid:
  "map index_valid
     (states_after (init [] :: nat ComboBoxBase) [AddItem ''A'' IconNone None, RemoveItem 0])
     = [True, False] \<and>
   map currentIndex
     (states_after (init [] :: nat ComboBoxBase) [AddItem ''A'' IconNone None, RemoveItem 0])
     = [0, 0] \<and>
   map count
     (states_after (init [] :: nat ComboBoxBase) [AddItem ''A'' IconNone None, RemoveItem 0])
     = [1, 0]"
  by (simp add: init_def addItem_def removeItem_def list_pop_def index_valid_def
      ComboItem_init_def combo_defs Let_def)

subsection \<open>Removing the selected entry\<close>

text \<open>
  C2. The claim: removing the entry at the current index gives the old index minus 1
  when the old index was positive, 0 when it was 0 and an entry remains, and -1 when
  no entry remains. The code does the first two (\<open>removeItem_current_index\<close>) and
  misses the third: removing the only entry, which is selected, leaves the current
  index at 0 on an empty list, with the removed entry's text still displayed.
\<close>

theorem removeItem_sole_entry_keeps_index_0:
  "currentIndex (box [''A''] 0) = 0 \<and>
   count (box [''A''] 0) = 1 \<and>
   items (removeItem (box [''A''] 0) 0) = [] \<and>
   currentIndex (removeItem (box [''A''] 0) 0) = 0 \<and>
   widgetText (removeItem (box [''A''] 0) 0) = ''A''"
  by (simp add: box_def item_def removeItem_def list_pop_def ComboItem_init_def
      combo_defs Let_def)

subsection \<open>Sizing queries of the popup\<close>

text \<open>
  C3. The claim: when the popup is requested, \<^verbatim>\<open>heightForAnimation\<close> is queried
  once per direction at that direction's own anchor point, for drop-down at the
  bottom edge of the widget and for pull-up at its top edge. The code computes the
  top-edge point \<^verbatim>\<open>pu\<close> and opens a pull-up popup there, but passes the
  bottom-edge point \<^verbatim>\<open>pd\<close> to both queries. For the example widget the
  bottom-edge anchor is (202, 330) and the top-edge anchor is (202, 300); both queries
  are made at (202, 330), so with 40 available below and 100 above the popup drops
  down.
\<close>

theorem showComboMenu_queries_pull_up_at_bottom_edge:
  "mapToGlobal (screen 40 100) \<lparr>px = 2, py = selfHeight (screen 40 100)\<rparr> = \<lparr>px = 202, py = 330\<rparr> \<and>
   mapToGlobal (screen 40 100) \<lparr>px = 2, py = 0\<rparr> = \<lparr>px = 202, py = 300\<rparr> \<and>
   queries (calls_of (showComboMenu (screen 40 100) (box [''A'', ''B''] 1))) =
     [(\<lparr>px = 202, py = 330\<rparr>, DROP_DOWN), (\<lparr>px = 202, py = 330\<rparr>, PULL_UP)] \<and>
   reported (calls_of (showComboMenu (screen 40 100) (box [''A'', ''B''] 1))) =
     [(DROP_DOWN, 40), (PULL_UP, 40)] \<and>
   opened (calls_of (showComboMenu (screen 40 100) (box [''A'', ''B''] 1))) =
     [(\<lparr>px = 202, py = 330\<rparr>, DROP_DOWN)]"
  by (simp add: showComboMenu_def screen_def box_def item_def ComboItem_init_def
      currentIndex_def query_def ComboBoxMenu_exec_def calls_of_def Let_def)

subsection \<open>Selection by click\<close>

text \<open>
  The claim C4 as written fails: a click on an index out of range that differs from
  the current index leaves the state as it is, yet both notifications are emitted.
\<close>

theorem onItemClicked_out_of_range_emits:
  "\<not> (0 \<le> (5::int) \<and> 5 < count (box [''A''] 0)) \<and>
   currentIndex (onItemClicked (box [''A''] 0) 5) = currentIndex (box [''A''] 0) \<and>
   emitted (box [''A''] 0) = [] \<and>
   emitted (onItemClicked (box [''A''] 0) 5) = [currentTextChanged ''A'', currentIndexChanged 5]"
  by (simp add: box_def item_def ComboItem_init_def combo_defs Let_def)

text \<open>
  C4, amended. \<^verbatim>\<open>_onItemClicked(index)\<close> is a silent no-op exactly when the index
  equals the current index. For an index out of range that differs from the current
  index, the current index, the displayed text and the items are unchanged, and
  text-changed (with the current text) then index-changed (with the given index) are
  emitted. For a valid index that differs from the current index it sets the index,
  updates the displayed text, and emits text-changed (the new text) then
  index-changed (the new index), in that order.
\<close>

theorem onItemClicked_effect:
  "(index = currentIndex s \<longrightarrow> onItemClicked s index = s) \<and>
   (index \<noteq> currentIndex s \<and> \<not> (0 \<le> index \<and> index < count s) \<longrightarrow>
      currentIndex (onItemClicked s index) = currentIndex s \<and>
      widgetText (onItemClicked s index) = widgetText s \<and>
      items (onItemClicked s index) = items s \<and>
      emitted (onItemClicked s index) =
        emitted s @ [currentTextChanged (currentText s), currentIndexChanged index]) \<and>
   (index \<noteq> currentIndex s \<and> 0 \<le> index \<and> index < count s \<longrightarrow>
      currentIndex (onItemClicked s index) = index \<and>
      widgetText (onItemClicked s index) = item_text (items s ! nat index) \<and>
      items (onItemClicked s index) = items s \<and>
      emitted (onItemClicked s index) =
        emitted s @ [currentTextChanged (item_text (items s ! nat index)),
                     currentIndexChanged index])"
  by (simp add: combo_defs Let_def)

theorem onItemClicked_effect_witness:
  "onItemClicked (box [''A'', ''B''] 0) 0 = box [''A'', ''B''] 0 \<and>
   currentIndex (onItemClicked (box [''A'', ''B''] 0) 2) = 0 \<and>
   widgetText (onItemClicked (box [''A'', ''B''] 0) 2) = ''A'' \<and>
   emitted (onItemClicked (box [''A'', ''B''] 0) 2) =
     [currentTextChanged ''A'', currentIndexChanged 2] \<and>
   currentIndex (onItemClicked (box [''A'', ''B''] 0) 1) = 1 \<and>
   widgetText (onItemClicked (box [''A'', ''B''] 0) 1) = ''B'' \<and>
   emitted (onItemClicked (box [''A'', ''B''] 0) 1) =
     [currentTextChanged ''B'', currentIndexChanged 1]"
  using onItemClicked_effect [where s = "box [''A'', ''B''] 0" and index = 0]
    onItemClicked_effect [where s = "box [''A'', ''B''] 0" and index = 2]
    onItemClicked_effect [where s = "box [''A'', ''B''] 0" and index = 1]
  by (simp add: box_def item_def ComboItem_init_def currentIndex_def count_def currentText_def)







subsection \<open>Inserting an entry\<close>




text \<open>
  The claim C10 as written fails for a negative index: Python's \<^verbatim>\<open>list.insert\<close>
  accepts it, and \<open>index \<le> currentIndex\<close> holds for the current index -1, so the new
  entry is selected and both notifications are emitted.
\<close>

theorem insertItem_empty_negative_index_selects:
  "items (box [] (- 1)) = [] \<and>
   currentIndex (box [] (- 1)) = - 1 \<and>
   currentIndex (insertItem (box [] (- 1)) (- 1) ''Z'' IconNone None) = 0 \<and>
   widgetText (insertItem (box [] (- 1)) (- 1) ''Z'' IconNone None) = ''Z'' \<and>
   emitted (insertItem (box [] (- 1)) (- 1) ''Z'' IconNone None) =
     [currentTextChanged ''Z'', currentIndexChanged 0]"
  by (simp add: box_def insertItem_def list_insert_def ComboItem_init_def combo_defs Let_def)

text \<open>
  C10, amended. \<^verbatim>\<open>insertItem\<close> with a non-negative index into an empty selection
  state (no items, current index -1) inserts the entry but does not select it: the
  current index remains -1, the displayed text is unchanged and no notification is
  emitted, unlike \<^verbatim>\<open>addItem\<close>, which selects the first entry it appends to an
  empty list.
\<close>

theorem insertItem_empty_unselected:
  assumes "items s = []" and "currentIndex s = - 1" and "0 \<le> index"
  shows "items (insertItem s index t ico ud) = [ComboItem_init t ico ud] \<and>
         currentIndex (insertItem s index t ico ud) = - 1 \<and>
         widgetText (insertItem s index t ico ud) = widgetText s \<and>
         emitted (insertItem s index t ico ud) = emitted s \<and>
         currentIndex (addItem s t ico ud) = 0"
  using assms
  by (simp add: insertItem_def addItem_def combo_defs Let_def list_insert_def)

theorem insertItem_empty_unselected_witness:
  "items (box [] (- 1)) = [] \<and> currentIndex (box [] (- 1)) = - 1 \<and> (0::int) \<le> 3 \<and>
   items (insertItem (box [] (- 1)) 3 ''Z'' IconNone None) = [item ''Z''] \<and>
   currentIndex (insertItem (box [] (- 1)) 3 ''Z'' IconNone None) = - 1 \<and>
   widgetText (insertItem (box [] (- 1)) 3 ''Z'' IconNone None) = [] \<and>
   emitted (insertItem (box [] (- 1)) 3 ''Z'' IconNone None) = [] \<and>
   currentIndex (addItem (box [] (- 1)) ''Z'' IconNone None) = 0"
proof -
  have h1: "items (box [] (- 1)) = []" by (simp add: box_def)
  have h2: "currentIndex (box [] (- 1)) = - 1" by (simp add: box_def currentIndex_def)
  have h3: "(0::int) \<le> 3" by simp
  show ?thesis
    using h1 h2 insertItem_empty_unselected [OF h1 h2 h3, of "''Z''" IconNone None]
    by (simp add: item_def) (simp add: box_def)
qed

text \<open>The calls made by a popup that is shown, written out.\<close>

lemma showComboMenu_calls:
  assumes "items s \<noteq> []" and "currentIndex s < count s"
  shows "\<exists>m. showComboMenu tk s = Shown m \<and>
           calls m =
             (let x = (- menuWidth tk) div 2 + marginLeft tk + selfWidth tk div 2;
                  pd = mapToGlobal tk \<lparr>px = x, py = selfHeight tk\<rparr>;
                  pu = mapToGlobal tk \<lparr>px = x, py = 0\<rparr>;
                  hd = heightForAnimation tk pd DROP_DOWN;
                  hu = heightForAnimation tk pd PULL_UP
              in [HeightForAnimation pd DROP_DOWN hd, HeightForAnimation pd PULL_UP hu] @
                 (if hd \<ge> hu
                  then [ViewAdjustSize pd DROP_DOWN, ViewAdjustSize pd DROP_DOWN,
                        MenuAdjustSize, RoundMenuExec pd True DROP_DOWN]
                  else [ViewAdjustSize pu PULL_UP, ViewAdjustSize pu PULL_UP,
                        MenuAdjustSize, RoundMenuExec pu True PULL_UP]))"
  using assms
  by (simp add: showComboMenu_def Let_def query_def ComboBoxMenu_exec_def
      currentIndex_def count_def)

subsection \<open>Choosing the direction of the popup\<close>

text \<open>
  C6. Whenever the popup is shown, the sizing function has been asked twice, first
  for drop-down and then for pull-up; with \<open>hd\<close> and \<open>hu\<close> the heights it reported,
  the popup is opened drop-down if and only if \<open>hd \<ge> hu\<close>, and pull-up otherwise, so
  equal heights choose drop-down. The popup is shown for every state with items whose
  current index is below the number of items.
\<close>

theorem showComboMenu_direction:
  assumes "items s \<noteq> []" and "currentIndex s < count s"
  shows "\<exists>m p1 p2 hd hu.
           showComboMenu tk s = Shown m \<and>
           queries (calls m) = [(p1, DROP_DOWN), (p2, PULL_UP)] \<and>
           hd = heightForAnimation tk p1 DROP_DOWN \<and>
           hu = heightForAnimation tk p2 PULL_UP \<and>
           reported (calls m) = [(DROP_DOWN, hd), (PULL_UP, hu)] \<and>
           (map snd (opened (calls m)) = [DROP_DOWN]) = (hd \<ge> hu) \<and>
           (map snd (opened (calls m)) = [PULL_UP]) = (hd < hu) \<and>
           (hd = hu \<longrightarrow> map snd (opened (calls m)) = [DROP_DOWN])"
proof -
  define x where "x = (- menuWidth tk) div 2 + marginLeft tk + selfWidth tk div 2"
  define pd where "pd = mapToGlobal tk \<lparr>px = x, py = selfHeight tk\<rparr>"
  define pu where "pu = mapToGlobal tk \<lparr>px = x, py = 0\<rparr>"
  define hd where "hd = heightForAnimation tk pd DROP_DOWN"
  define hu where "hu = heightForAnimation tk pd PULL_UP"
  from showComboMenu_calls [OF assms, of tk]
  obtain m where shown: "showComboMenu tk s = Shown m"
    and cs: "calls m =
      [HeightForAnimation pd DROP_DOWN hd, HeightForAnimation pd PULL_UP hu] @
      (if hd \<ge> hu
       then [ViewAdjustSize pd DROP_DOWN, ViewAdjustSize pd DROP_DOWN,
             MenuAdjustSize, RoundMenuExec pd True DROP_DOWN]
       else [ViewAdjustSize pu PULL_UP, ViewAdjustSize pu PULL_UP,
             MenuAdjustSize, RoundMenuExec pu True PULL_UP])"
    unfolding Let_def x_def pd_def pu_def hd_def hu_def by blast
  have q: "queries (calls m) = [(pd, DROP_DOWN), (pd, PULL_UP)]"
    by (simp add: cs)
  have r: "reported (calls m) = [(DROP_DOWN, hd), (PULL_UP, hu)]"
    by (simp add: cs)
  have d: "(map snd (opened (calls m)) = [DROP_DOWN]) = (hd \<ge> hu)"
    by (simp add: cs)
  have u: "(map snd (opened (calls m)) = [PULL_UP]) = (hd < hu)"
    by (simp add: cs)
  have e: "hd = hu \<longrightarrow> map snd (opened (calls m)) = [DROP_DOWN]"
    by (simp add: cs)
  have "showComboMenu tk s = Shown m \<and>
        queries (calls m) = [(pd, DROP_DOWN), (pd, PULL_UP)] \<and>
        hd = heightForAnimation tk pd DROP_DOWN \<and>
        hu = heightForAnimation tk pd PULL_UP \<and>
        reported (calls m) = [(DROP_DOWN, hd), (PULL_UP, hu)] \<and>
        (map snd (opened (calls m)) = [DROP_DOWN]) = (hd \<ge> hu) \<and>
        (map snd (opened (calls m)) = [PULL_UP]) = (hd < hu) \<and>
        (hd = hu \<longrightarrow> map snd (opened (calls m)) = [DROP_DOWN])"
    using shown q r d u e hd_def hu_def by (intro conjI)
  then show ?thesis
    by (intro exI)
qed

theorem showComboMenu_direction_witness:
  "items (box [''A'', ''B''] 1) \<noteq> [] \<and>
   currentIndex (box [''A'', ''B''] 1) < count (box [''A'', ''B''] 1) \<and>
   (\<exists>m p1 p2 hd hu.
      showComboMenu (screen 70 70) (box [''A'', ''B''] 1) = Shown m \<and>
      queries (calls m) = [(p1, DROP_DOWN), (p2, PULL_UP)] \<and>
      hd = heightForAnimation (screen 70 70) p1 DROP_DOWN \<and>
      hu = heightForAnimation (screen 70 70) p2 PULL_UP \<and>
      reported (calls m) = [(DROP_DOWN, hd), (PULL_UP, hu)] \<and>
      (map snd (opened (calls m)) = [DROP_DOWN]) = (hd \<ge> hu) \<and>
      (map snd (opened (calls m)) = [PULL_UP]) = (hd < hu) \<and>
      (hd = hu \<longrightarrow> map snd (opened (calls m)) = [DROP_DOWN])) \<and>
   reported (calls_of (showComboMenu (screen 70 70) (box [''A'', ''B''] 1))) =
     [(DROP_DOWN, 70), (PULL_UP, 70)] \<and>
   map snd (opened (calls_of (showComboMenu (screen 70 70) (box [''A'', ''B''] 1)))) =
     [DROP_DOWN] \<and>
   map snd (opened (calls_of (showComboMenu (screen 100 40) (box [''A'', ''B''] 1)))) =
     [DROP_DOWN]"
proof -
  have h1: "items (box [''A'', ''B''] 1) \<noteq> []"
    by (simp add: box_def)
  have h2: "currentIndex (box [''A'', ''B''] 1) < count (box [''A'', ''B''] 1)"
    by (simp add: box_def currentIndex_def count_def)
  have r: "reported (calls_of (showComboMenu (screen 70 70) (box [''A'', ''B''] 1))) =
     [(DROP_DOWN, 70), (PULL_UP, 70)]"
    by (simp add: showComboMenu_def screen_def box_def item_def ComboItem_init_def
        currentIndex_def query_def ComboBoxMenu_exec_def calls_of_def Let_def)
  have o: "map snd (opened (calls_of (showComboMenu (screen 70 70) (box [''A'', ''B''] 1)))) =
     [DROP_DOWN]"
    by (simp add: showComboMenu_def screen_def box_def item_def ComboItem_init_def
        currentIndex_def query_def ComboBoxMenu_exec_def calls_of_def Let_def)
  have o': "map snd (opened (calls_of (showComboMenu (screen 100 40) (box [''A'', ''B''] 1)))) =
     [DROP_DOWN]"
    by (simp add: showComboMenu_def screen_def box_def item_def ComboItem_init_def
        currentIndex_def query_def ComboBoxMenu_exec_def calls_of_def Let_def)
  from h1 h2 showComboMenu_direction [OF h1 h2, of "screen 70 70"] r o o'
  show ?thesis
    by (intro conjI)
qed

subsection \<open>Appending an entry\<close>

text \<open>
  C7. \<^verbatim>\<open>addItem\<close> on a state without items appends the entry, sets the current
  index to 0 and the displayed text to the entry's text, and emits no notification;
  on a state with items it appends the entry and leaves the current index and the
  displayed text unchanged (and emits nothing either).
\<close>

theorem addItem_selection:
  "(items s = [] \<longrightarrow>
      items (addItem s t ico ud) = [ComboItem_init t ico ud] \<and>
      currentIndex (addItem s t ico ud) = 0 \<and>
      widgetText (addItem s t ico ud) = t \<and>
      emitted (addItem s t ico ud) = emitted s) \<and>
   (items s \<noteq> [] \<longrightarrow>
      items (addItem s t ico ud) = items s @ [ComboItem_init t ico ud] \<and>
      currentIndex (addItem s t ico ud) = currentIndex s \<and>
      widgetText (addItem s t ico ud) = widgetText s \<and>
      emitted (addItem s t ico ud) = emitted s)"
  by (simp add: addItem_def combo_defs Let_def ComboItem_init_def)

theorem addItem_selection_witness:
  "currentIndex (addItem (init [] :: nat ComboBoxBase) ''A'' IconNone None) = 0 \<and>
   widgetText (addItem (init [] :: nat ComboBoxBase) ''A'' IconNone None) = ''A'' \<and>
   emitted (addItem (init [] :: nat ComboBoxBase) ''A'' IconNone None) = [] \<and>
   count (addItem (addItem (box [''A''] 0) ''B'' IconNone None) ''C'' IconNone None) = 3 \<and>
   currentIndex (addItem (addItem (box [''A''] 0) ''B'' IconNone None) ''C'' IconNone None) = 0 \<and>
   widgetText (addItem (addItem (box [''A''] 0) ''B'' IconNone None) ''C'' IconNone None) = ''A'' \<and>
   emitted (addItem (addItem (box [''A''] 0) ''B'' IconNone None) ''C'' IconNone None) = []"
proof -
  have i: "items (init [] :: nat ComboBoxBase) = []"
    and e: "emitted (init [] :: nat ComboBoxBase) = []"
    by (simp_all add: init_def)
  have b: "items (box [''A''] 0) \<noteq> []" "currentIndex (box [''A''] 0) = 0"
    "widgetText (box [''A''] 0) = ''A''" "emitted (box [''A''] 0) = []"
    "length (items (box [''A''] 0)) = 1"
    by (simp_all add: box_def currentIndex_def)
  note first = addItem_selection [where s = "init [] :: nat ComboBoxBase" and t = "''A''"
      and ico = IconNone and ud = None]
  note second = addItem_selection [where s = "box [''A''] 0" and t = "''B''"
      and ico = IconNone and ud = None]
  note third = addItem_selection [where s = "addItem (box [''A''] 0) ''B'' IconNone None"
      and t = "''C''" and ico = IconNone and ud = None]
  from second b have s2: "items (addItem (box [''A''] 0) ''B'' IconNone None) =
      items (box [''A''] 0) @ [ComboItem_init ''B'' IconNone None]"
    "currentIndex (addItem (box [''A''] 0) ''B'' IconNone None) = 0"
    "widgetText (addItem (box [''A''] 0) ''B'' IconNone None) = ''A''"
    "emitted (addItem (box [''A''] 0) ''B'' IconNone None) = []"
    by simp_all
  from third s2 b have s3:
    "count (addItem (addItem (box [''A''] 0) ''B'' IconNone None) ''C'' IconNone None) = 3"
    "currentIndex (addItem (addItem (box [''A''] 0) ''B'' IconNone None) ''C'' IconNone None) = 0"
    "widgetText (addItem (addItem (box [''A''] 0) ''B'' IconNone None) ''C'' IconNone None) = ''A''"
    "emitted (addItem (addItem (box [''A''] 0) ''B'' IconNone None) ''C'' IconNone None) = []"
    by (simp_all add: count_def)
  from first i e s3 show ?thesis
    by simp
qed

subsection \<open>Removing the first entry while it is selected\<close>

text \<open>
  C8. When \<^verbatim>\<open>removeItem\<close> removes the entry at index 0 while the current index is
  0, a text-changed notification and then an index-changed notification (with 0) are
  emitted in every case, also when the list becomes empty; the text sent is the text
  of the new first entry, or the empty string when no entry remains.
\<close>

theorem removeItem_first_current_emits:
  assumes "items s \<noteq> []" and "currentIndex s = 0"
  shows "emitted (removeItem s 0) =
           emitted s @ [currentTextChanged (currentText (removeItem s 0)),
                        currentIndexChanged 0] \<and>
         currentText (removeItem s 0) =
           (if length (items s) = 1 then [] else item_text (items s ! 1))"
  using assms
  by (cases "items s") (auto simp: removeItem_def combo_defs Let_def list_pop_def)

theorem removeItem_first_current_emits_witness:
  "items (box [''A''] 0) \<noteq> [] \<and> currentIndex (box [''A''] 0) = 0 \<and>
   emitted (removeItem (box [''A''] 0) 0) = [currentTextChanged [], currentIndexChanged 0] \<and>
   items (box [''A'', ''B''] 0) \<noteq> [] \<and> currentIndex (box [''A'', ''B''] 0) = 0 \<and>
   emitted (removeItem (box [''A'', ''B''] 0) 0) =
     [currentTextChanged ''B'', currentIndexChanged 0]"
proof -
  have a1: "items (box [''A''] 0) \<noteq> []" and a2: "currentIndex (box [''A''] 0) = 0"
    by (simp_all add: box_def currentIndex_def)
  have b1: "items (box [''A'', ''B''] 0) \<noteq> []" and b2: "currentIndex (box [''A'', ''B''] 0) = 0"
    by (simp_all add: box_def currentIndex_def)
  have c: "emitted (box [''A''] 0) = []" "length (items (box [''A''] 0)) = 1"
    "emitted (box [''A'', ''B''] 0) = []" "length (items (box [''A'', ''B''] 0)) = 2"
    "item_text (items (box [''A'', ''B''] 0) ! 1) = ''B''"
    by (simp_all add: box_def item_def ComboItem_init_def)
  from removeItem_first_current_emits [OF a1 a2] removeItem_first_current_emits [OF b1 b2]
    a1 a2 b1 b2 c
  show ?thesis
    by simp
qed

subsection \<open>Setting the current index\<close>

text \<open>
  C9. \<^verbatim>\<open>setCurrentIndex(index)\<close> with an index out of range leaves the state as it
  is, so the current index and the displayed text are unchanged; with an index in
  range it sets the current index and the displayed text to that entry's text; in
  neither case is a notification emitted.
\<close>

theorem setCurrentIndex_frame:
  "(\<not> (0 \<le> index \<and> index < count s) \<longrightarrow> setCurrentIndex s index = s) \<and>
   (0 \<le> index \<and> index < count s \<longrightarrow>
      currentIndex (setCurrentIndex s index) = index \<and>
      widgetText (setCurrentIndex s index) = item_text (items s ! nat index) \<and>
      items (setCurrentIndex s index) = items s) \<and>
   emitted (setCurrentIndex s index) = emitted s"
  by (simp add: combo_defs)

theorem setCurrentIndex_frame_witness:
  "setCurrentIndex (box [''A'', ''B''] 0) 2 = box [''A'', ''B''] 0 \<and>
   setCurrentIndex (box [''A'', ''B''] 0) (- 1) = box [''A'', ''B''] 0 \<and>
   currentIndex (setCurrentIndex (box [''A'', ''B''] 0) 1) = 1 \<and>
   widgetText (setCurrentIndex (box [''A'', ''B''] 0) 1) = ''B'' \<and>
   emitted (setCurrentIndex (box [''A'', ''B''] 0) 1) = []"
proof -
  have c: "count (box [''A'', ''B''] 0) = 2" "emitted (box [''A'', ''B''] 0) = []"
    "item_text (items (box [''A'', ''B''] 0) ! nat 1) = ''B''"
    by (simp_all add: box_def count_def item_def ComboItem_init_def)
  from setCurrentIndex_frame [where s = "box [''A'', ''B''] 0" and index = 2]
    setCurrentIndex_frame [where s = "box [''A'', ''B''] 0" and index = "- 1"]
    setCurrentIndex_frame [where s = "box [''A'', ''B''] 0" and index = 1] c
  show ?thesis
    by simp
qed

end
